theory Spec2Isabelle
  imports Main
begin

section \<open>Python values\<close>

text \<open>
  The memory module stores and passes on values of any Python type (tool arguments, action
  outputs, chat messages, images).  \<open>pyval\<close> covers the values the module can tell apart:
  \<open>None\<close>, booleans, integers, floats, strings, lists, dicts with string keys, instances
  of dataclasses, and every other object.  A float is kept as the literal that \<open>repr\<close>
  prints for it, since the module never computes with floats.  An instance of a dataclass
  (a chat message, for one) is \<open>PData c fs\<close>: the name of its class and its fields in
  the order of their declaration.  An object of any other class is \<open>PObj r\<close>, where
  \<open>r\<close> is the text \<open>repr\<close> prints for it.  Neither has a JSON form, and both are
  taken to be true in a truth test.  A Python string is a \<open>string\<close> whose characters
  stand for code points.  A dict is an association list in insertion order.
\<close>

datatype pyval =
    PNone
  | PBool bool
  | PInt int
  | PFloat string
  | PStr string
  | PList "pyval list"
  | PDict "(string \<times> pyval) list"
  | PData string "(string \<times> pyval) list"
  | PObj string

datatype exception = TypeError | IndexError | NotImplementedError

text \<open>Truth value testing, as \<open>if x:\<close> does it.\<close>

fun py_truthy :: "pyval \<Rightarrow> bool" where
  "py_truthy PNone = False"
| "py_truthy (PBool b) = b"
| "py_truthy (PInt i) = (i \<noteq> 0)"
| "py_truthy (PFloat f) = (f \<noteq> ''0.0'' \<and> f \<noteq> ''-0.0'')"
| "py_truthy (PStr s) = (s \<noteq> [])"
| "py_truthy (PList xs) = (xs \<noteq> [])"
| "py_truthy (PDict kvs) = (kvs \<noteq> [])"
| "py_truthy (PData c fs) = True"
| "py_truthy (PObj r) = True"

subsection \<open>Strings: \<open>strip\<close>, \<open>repr\<close>, \<open>str\<close>\<close>

definition NL :: char where
  "NL = CHR 0x0A"

definition is_space :: "char \<Rightarrow> bool" where
  "is_space c = (let n = (of_char c :: nat) in
     (9 \<le> n \<and> n \<le> 13) \<or> (28 \<le> n \<and> n \<le> 32) \<or> n = 133 \<or> n = 160)"

definition strip :: "string \<Rightarrow> string" where
  "strip s = rev (dropWhile is_space (rev (dropWhile is_space s)))"

fun join :: "string \<Rightarrow> string list \<Rightarrow> string" where
  "join sep [] = []"
| "join sep [x] = x"
| "join sep (x # y # ys) = x @ sep @ join sep (y # ys)"

fun digits :: "nat \<Rightarrow> string" where
  "digits n = (if n < 10 then [char_of (48 + n)]
               else digits (n div 10) @ [char_of (48 + n mod 10)])"

definition int_repr :: "int \<Rightarrow> string" where
  "int_repr i = (if i < 0 then ''-'' @ digits (nat (- i)) else digits (nat i))"

definition hex_digit :: "nat \<Rightarrow> char" where
  "hex_digit d = (if d < 10 then char_of (48 + d) else char_of (87 + d))"

definition repr_quote :: "string \<Rightarrow> char" where
  "repr_quote s = (if CHR 0x27 \<in> set s \<and> CHR 0x22 \<notin> set s then CHR 0x22 else CHR 0x27)"

definition repr_char :: "char \<Rightarrow> char \<Rightarrow> string" where
  "repr_char q c = (let n = (of_char c :: nat) in
     if c = q \<or> c = CHR 0x5C then [CHR 0x5C, c]
     else if n = 9 then [CHR 0x5C, CHR ''t'']
     else if n = 10 then [CHR 0x5C, CHR ''n'']
     else if n = 13 then [CHR 0x5C, CHR ''r'']
     else if n < 32 \<or> n = 127 \<or> (128 \<le> n \<and> n \<le> 160) \<or> n = 173
       then [CHR 0x5C, CHR ''x'', hex_digit (n div 16), hex_digit (n mod 16)]
     else [c])"

definition str_repr :: "string \<Rightarrow> string" where
  "str_repr s = (let q = repr_quote s in [q] @ concat (map (repr_char q) s) @ [q])"

fun py_repr :: "pyval \<Rightarrow> string" where
  "py_repr PNone = ''None''"
| "py_repr (PBool b) = (if b then ''True'' else ''False'')"
| "py_repr (PInt i) = int_repr i"
| "py_repr (PFloat f) = f"
| "py_repr (PStr s) = str_repr s"
| "py_repr (PList xs) = ''['' @ join '', '' (map py_repr xs) @ '']''"
| "py_repr (PDict kvs) =
     ''{'' @ join '', '' (map (\<lambda>(k, v). str_repr k @ '': '' @ py_repr v) kvs) @ ''}''"
| "py_repr (PData c fs) =
     c @ ''('' @ join '', '' (map (\<lambda>(k, v). k @ ''='' @ py_repr v) fs) @ '')''"
| "py_repr (PObj r) = r"

definition py_str :: "pyval \<Rightarrow> string" where
  "py_str v = (case v of PStr s \<Rightarrow> s | _ \<Rightarrow> py_repr v)"

subsection \<open>JSON\<close>

text \<open>
  A value has a JSON form when it is built from \<open>None\<close>, booleans, numbers, strings, lists
  and string-keyed dicts.  On such a value the standard encoder followed by the decoder gives
  back an equal value; on anything else the encoder raises \<open>TypeError\<close>.
\<close>

fun json_safe :: "pyval \<Rightarrow> bool" where
  "json_safe (PList xs) = list_all json_safe xs"
| "json_safe (PDict kvs) = list_all (\<lambda>(k, v). json_safe v) kvs"
| "json_safe (PData c fs) = False"
| "json_safe (PObj r) = False"
| "json_safe v = True"

definition json_roundtrip :: "pyval \<Rightarrow> exception + pyval" where
  "json_roundtrip v = (if json_safe v then Inr v else Inl TypeError)"

text \<open>
  Modelled from the spec: \<open>make_json_serializable\<close> lives in \<open>smolagents.utils\<close>, which is
  not among the sources.  The specification describes it as a recursive walk over mappings
  and sequences that keeps their structure and puts the string \<open><not serializable>\<close> in the
  place of every leaf that has no JSON form, never raising.
\<close>

fun make_json_serializable :: "pyval \<Rightarrow> pyval" where
  "make_json_serializable (PList xs) = PList (map make_json_serializable xs)"
| "make_json_serializable (PDict kvs) = PDict (map (\<lambda>(k, v). (k, make_json_serializable v)) kvs)"
| "make_json_serializable (PData c fs) = PStr ''<not serializable>''"
| "make_json_serializable (PObj r) = PStr ''<not serializable>''"
| "make_json_serializable v = v"

text \<open>
  \<open>dataclasses.asdict\<close> builds the record of an instance from the fields its class
  declares: it recurses into lists and dicts, turns an instance of a dataclass into the
  dict of its fields, and copies every other value.
\<close>

fun asdict_inner :: "pyval \<Rightarrow> pyval" where
  "asdict_inner (PList xs) = PList (map asdict_inner xs)"
| "asdict_inner (PDict kvs) = PDict (map (\<lambda>(k, v). (k, asdict_inner v)) kvs)"
| "asdict_inner (PData c fs) = PDict (map (\<lambda>(k, v). (k, asdict_inner v)) fs)"
| "asdict_inner v = v"

definition asdict :: "(string \<times> pyval) list \<Rightarrow> (string \<times> pyval) list" where
  "asdict declared_fields = map (\<lambda>(k, v). (k, asdict_inner v)) declared_fields"

section \<open>Messages and tool calls\<close>

text \<open>
  Modelled from the spec: \<open>MessageRole\<close> and \<open>AgentError\<close> are declared in modules that
  are not among the sources.  The specification gives the roles as a fixed enumeration of
  four members, and the error as a value with a string form and a record export.  Some
  messages of this module carry the role as a plain string instead of a member of the
  enumeration, so a role is either.
\<close>

datatype MessageRole = SYSTEM | USER | ASSISTANT | TOOL_RESPONSE

datatype role_value = Member MessageRole | Literal string

record AgentError =
  str_form :: string
  dict_form :: "(string \<times> pyval) list"

record Message =
  role :: role_value
  content :: pyval

definition text_part :: "string \<Rightarrow> pyval" where
  "text_part s = PDict [(''type'', PStr ''text''), (''text'', PStr s)]"

definition image_part :: "pyval \<Rightarrow> pyval" where
  "image_part img = PDict [(''type'', PStr ''image''), (''image'', img)]"

record ToolCall =
  name :: string
  arguments :: pyval
  id_field :: string

definition ToolCall_dict :: "ToolCall \<Rightarrow> (string \<times> pyval) list" where
  "ToolCall_dict self =
     [(''id'', PStr (id_field self)),
      (''type'', PStr ''function''),
      (''function'', PDict [(''name'', PStr (name self)),
                            (''arguments'', make_json_serializable (arguments self))])]"

section \<open>Steps\<close>

definition MemoryStep_to_messages :: "exception + Message list" where
  "MemoryStep_to_messages = Inl NotImplementedError"

subsection \<open>CriticStep\<close>

text \<open>
  \<open>CriticStep\<close> is a plain subclass of the dataclass \<open>MemoryStep\<close>: it is not decorated
  itself, and its attributes are assigned in \<open>__init__\<close>.
\<close>

record CriticStep =
  start_time :: pyval
  end_time :: pyval
  duration :: pyval
  model_input_messages :: pyval
  model_output_message :: pyval
  feedback :: string
  accepted :: bool

text \<open>The constructor; \<open>now\<close> is what \<open>time.time()\<close> returns.\<close>

definition CriticStep_init ::
  "string \<Rightarrow> pyval \<Rightarrow> pyval \<Rightarrow> pyval \<Rightarrow> pyval \<Rightarrow> pyval \<Rightarrow> string \<Rightarrow> bool \<Rightarrow> CriticStep" where
  "CriticStep_init now start_time' end_time' duration' model_input_messages'
       model_output_message' feedback' accepted' =
     \<lparr>CriticStep.start_time = (if start_time' \<noteq> PNone then start_time' else PFloat now),
      CriticStep.end_time = end_time',
      CriticStep.duration = duration',
      CriticStep.model_input_messages =
        (if model_input_messages' \<noteq> PNone then model_input_messages' else PList []),
      CriticStep.model_output_message = model_output_message',
      feedback = feedback',
      accepted = accepted'\<rparr>"

text \<open>
  The fields \<open>dataclasses.fields\<close> finds on a \<open>CriticStep\<close> are those of \<open>MemoryStep\<close>,
  which declares none.
\<close>

definition CriticStep_declared_fields :: "CriticStep \<Rightarrow> (string \<times> pyval) list" where
  "CriticStep_declared_fields self = []"

definition CriticStep_dict :: "CriticStep \<Rightarrow> (string \<times> pyval) list" where
  "CriticStep_dict self = asdict (CriticStep_declared_fields self)"

definition CriticStep_to_messages :: "CriticStep \<Rightarrow> bool \<Rightarrow> Message list" where
  "CriticStep_to_messages self summary_mode =
     (if summary_mode then
        (let status = (if accepted self then ''ACCEPTED'' else ''REJECTED'') in
         [\<lparr>role = Literal ''assistant'',
           content = PStr (''[Critic '' @ status @ ''] '' @
             (if length (feedback self) > 200 then take 200 (feedback self) @ ''...''
              else feedback self))\<rparr>])
      else
        (if py_truthy (CriticStep.model_output_message self)
         then [\<lparr>role = Literal ''assistant'',
                 content = PStr (''[Critic Review] '' @ feedback self)\<rparr>]
         else []))"

definition CriticStep_str :: "CriticStep \<Rightarrow> string" where
  "CriticStep_str self =
     (let status = (if accepted self then ''ACCEPTED'' else ''REJECTED'') in
      ''CriticStep(status='' @ status @ '', feedback='' @
        (if length (feedback self) > 50 then take 50 (feedback self) @ ''...''
         else feedback self) @ '')'')"

subsection \<open>PlanningStep, TaskStep, SystemPromptStep\<close>

record PlanningStep =
  model_input_messages :: pyval
  model_output_message_facts :: pyval
  facts :: string
  model_output_message_plan :: pyval
  plan :: string

definition PlanningStep_dict :: "PlanningStep \<Rightarrow> (string \<times> pyval) list" where
  "PlanningStep_dict self = asdict
     [(''model_input_messages'', PlanningStep.model_input_messages self),
      (''model_output_message_facts'', model_output_message_facts self),
      (''facts'', PStr (facts self)),
      (''model_output_message_plan'', model_output_message_plan self),
      (''plan'', PStr (plan self))]"

definition PlanningStep_to_messages :: "PlanningStep \<Rightarrow> bool \<Rightarrow> Message list" where
  "PlanningStep_to_messages self summary_mode =
     [\<lparr>role = Member ASSISTANT,
       content = PList [text_part (''[FACTS LIST]:'' @ [NL] @ strip (facts self))]\<rparr>] @
     (if \<not> summary_mode
      then [\<lparr>role = Member ASSISTANT,
              content = PList [text_part (''[PLAN]:'' @ [NL] @ strip (plan self))]\<rparr>]
      else [])"

record TaskStep =
  task :: string
  task_images :: "pyval list option"

definition TaskStep_dict :: "TaskStep \<Rightarrow> (string \<times> pyval) list" where
  "TaskStep_dict self = asdict
     [(''task'', PStr (task self)),
      (''task_images'', (case task_images self of None \<Rightarrow> PNone | Some imgs \<Rightarrow> PList imgs))]"

definition TaskStep_to_messages :: "TaskStep \<Rightarrow> Message list" where
  "TaskStep_to_messages self =
     [\<lparr>role = Member USER,
       content = PList (text_part (''New task:'' @ [NL] @ task self) #
         (case task_images self of None \<Rightarrow> [] | Some imgs \<Rightarrow> map image_part imgs))\<rparr>]"

record SystemPromptStep =
  system_prompt :: string

definition SystemPromptStep_dict :: "SystemPromptStep \<Rightarrow> (string \<times> pyval) list" where
  "SystemPromptStep_dict self = asdict [(''system_prompt'', PStr (system_prompt self))]"

definition SystemPromptStep_to_messages :: "SystemPromptStep \<Rightarrow> bool \<Rightarrow> Message list" where
  "SystemPromptStep_to_messages self summary_mode =
     (if summary_mode then []
      else [\<lparr>role = Member SYSTEM, content = PList [text_part (strip (system_prompt self))]\<rparr>])"

subsection \<open>ActionStep\<close>

text \<open>
  The twelve declared fields, in the order of the class, and \<open>critic_steps\<close>, the attribute
  that the patched constructor adds: \<open>None\<close> is an instance without the attribute.
\<close>

record ActionStep =
  model_input_messages :: pyval
  tool_calls :: "ToolCall list option"
  start_time :: pyval
  end_time :: pyval
  step_number :: pyval
  error :: "AgentError option"
  duration :: pyval
  model_output_message :: pyval
  model_output :: "string option"
  observations :: "string option"
  observations_images :: "pyval list option"
  action_output :: pyval
  critic_steps :: "CriticStep list option"

definition opt_str :: "string option \<Rightarrow> pyval" where
  "opt_str x = (case x of None \<Rightarrow> PNone | Some s \<Rightarrow> PStr s)"

definition ActionStep_dict :: "ActionStep \<Rightarrow> (string \<times> pyval) list" where
  "ActionStep_dict self =
     [(''model_input_messages'', ActionStep.model_input_messages self),
      (''tool_calls'', PList (case tool_calls self of
           None \<Rightarrow> []
         | Some [] \<Rightarrow> []
         | Some (tc # tcs) \<Rightarrow> map (\<lambda>tc. PDict (ToolCall_dict tc)) (tc # tcs))),
      (''start_time'', ActionStep.start_time self),
      (''end_time'', ActionStep.end_time self),
      (''step'', step_number self),
      (''error'', (case error self of None \<Rightarrow> PNone | Some e \<Rightarrow> PDict (dict_form e))),
      (''duration'', ActionStep.duration self),
      (''model_output_message'', ActionStep.model_output_message self),
      (''model_output'', opt_str (model_output self)),
      (''observations'', opt_str (observations self)),
      (''action_output'', make_json_serializable (action_output self))]"

text \<open>
  \<open>to_messages\<close> appends to one list, branch after branch.  The only branch that can
  raise is the one for the observations: \<open>self.tool_calls[0]\<close> is a \<open>TypeError\<close> on
  \<open>None\<close> and an \<open>IndexError\<close> on the empty list.
\<close>

definition input_messages_part :: "ActionStep \<Rightarrow> bool \<Rightarrow> Message list" where
  "input_messages_part self show_model_input_messages =
     (if ActionStep.model_input_messages self \<noteq> PNone \<and> show_model_input_messages
      then [\<lparr>role = Member SYSTEM, content = ActionStep.model_input_messages self\<rparr>]
      else [])"

definition model_output_part :: "ActionStep \<Rightarrow> bool \<Rightarrow> Message list" where
  "model_output_part self summary_mode =
     (case model_output self of
        None \<Rightarrow> []
      | Some out \<Rightarrow>
          if \<not> summary_mode
          then [\<lparr>role = Member ASSISTANT, content = PList [text_part (strip out)]\<rparr>]
          else [])"

definition tool_calls_part :: "ActionStep \<Rightarrow> Message list" where
  "tool_calls_part self =
     (case tool_calls self of
        None \<Rightarrow> []
      | Some tcs \<Rightarrow>
          [\<lparr>role = Member ASSISTANT,
            content = PList [text_part (''Calling tools:'' @ [NL] @
              py_str (PList (map (\<lambda>tc. PDict (ToolCall_dict tc)) tcs)))]\<rparr>])"

definition first_tool_call_id :: "ActionStep \<Rightarrow> exception + string" where
  "first_tool_call_id self =
     (case tool_calls self of
        None \<Rightarrow> Inl TypeError
      | Some [] \<Rightarrow> Inl IndexError
      | Some (tc # tcs) \<Rightarrow> Inr (id_field tc))"

definition observations_part :: "ActionStep \<Rightarrow> exception + Message list" where
  "observations_part self =
     (case observations self of
        None \<Rightarrow> Inr []
      | Some obs \<Rightarrow>
          (case first_tool_call_id self of
             Inl e \<Rightarrow> Inl e
           | Inr call_id \<Rightarrow>
               Inr [\<lparr>role = Member TOOL_RESPONSE,
                     content = PList [text_part (''Call id: '' @ call_id @ [NL] @
                       ''Observation:'' @ [NL] @ obs)]\<rparr>]))"

definition retry_guidance :: string where
  "retry_guidance = [NL] @
     ''Now let's retry: take care not to repeat previous errors! If you have retried several times, try a completely different approach.''
     @ [NL]"

definition error_part :: "ActionStep \<Rightarrow> Message list" where
  "error_part self =
     (case error self of
        None \<Rightarrow> []
      | Some e \<Rightarrow>
          (let error_message = ''Error:'' @ [NL] @ str_form e @ retry_guidance;
               message_content = (case tool_calls self of
                   Some (tc # tcs) \<Rightarrow> ''Call id: '' @ id_field tc @ [NL]
                 | _ \<Rightarrow> '''') @ error_message
           in [\<lparr>role = Member TOOL_RESPONSE, content = PList [text_part message_content]\<rparr>]))"

definition observations_images_part :: "ActionStep \<Rightarrow> Message list" where
  "observations_images_part self =
     (case observations_images self of
        Some (img # imgs) \<Rightarrow>
          [\<lparr>role = Member USER,
            content = PList (text_part ''Here are the observed images:'' #
                             map image_part (img # imgs))\<rparr>]
      | _ \<Rightarrow> [])"

definition ActionStep_to_messages :: "ActionStep \<Rightarrow> bool \<Rightarrow> bool \<Rightarrow> exception + Message list" where
  "ActionStep_to_messages self summary_mode show_model_input_messages =
     (case observations_part self of
        Inl e \<Rightarrow> Inl e
      | Inr observation_messages \<Rightarrow>
          Inr (input_messages_part self show_model_input_messages @
               model_output_part self summary_mode @
               tool_calls_part self @
               observation_messages @
               error_part self @
               observations_images_part self))"

subsection \<open>The critic-step extension\<close>

text \<open>
  A call of \<open>to_messages\<close> supplies each of the two optional arguments or leaves it out
  (\<open>None\<close>).  The class object holds the constructor and the method that are installed at
  the moment; \<open>patch_action_step\<close> replaces both by wrappers around what it finds.
\<close>

record to_messages_call =
  summary_mode :: "bool option"
  show_model_input_messages :: "bool option"

record ActionStep_class =
  init_method :: "ActionStep \<Rightarrow> ActionStep"
  to_messages_method :: "ActionStep \<Rightarrow> to_messages_call \<Rightarrow> exception + Message list"

definition default_arg :: "bool \<Rightarrow> bool option \<Rightarrow> bool" where
  "default_arg d x = (case x of None \<Rightarrow> d | Some b \<Rightarrow> b)"

text \<open>
  The generated constructor assigns the declared fields; the instance it leaves has no
  attribute \<open>critic_steps\<close>.
\<close>

definition ActionStep_init :: "ActionStep \<Rightarrow> ActionStep" where
  "ActionStep_init kwargs = kwargs\<lparr>critic_steps := None\<rparr>"

definition ActionStep_cls :: ActionStep_class where
  "ActionStep_cls =
     \<lparr>init_method = ActionStep_init,
      to_messages_method = (\<lambda>self call.
        ActionStep_to_messages self
          (default_arg False (summary_mode call))
          (default_arg False (show_model_input_messages call)))\<rparr>"

definition init_with_critic_steps :: "(ActionStep \<Rightarrow> ActionStep) \<Rightarrow> ActionStep \<Rightarrow> ActionStep" where
  "init_with_critic_steps original_init kwargs =
     (let self = original_init kwargs in
      if critic_steps self = None then self\<lparr>critic_steps := Some []\<rparr> else self)"

text \<open>
  The wrapper is declared as \<open>(self, summary_mode=False)\<close>: a call that supplies
  \<open>show_model_input_messages\<close>, by keyword or by position, is a \<open>TypeError\<close>.  It hands
  \<open>summary_mode\<close> on by position.
\<close>

definition to_messages_with_critic_steps ::
  "(ActionStep \<Rightarrow> to_messages_call \<Rightarrow> exception + Message list) \<Rightarrow>
   ActionStep \<Rightarrow> to_messages_call \<Rightarrow> exception + Message list" where
  "to_messages_with_critic_steps original_to_messages self call =
     (case show_model_input_messages call of
        Some b \<Rightarrow> Inl TypeError
      | None \<Rightarrow>
          (let sm = default_arg False (summary_mode call) in
           case original_to_messages self
                  \<lparr>summary_mode = Some sm, show_model_input_messages = None\<rparr> of
             Inl e \<Rightarrow> Inl e
           | Inr messages \<Rightarrow>
               (case critic_steps self of
                  Some (c # cs) \<Rightarrow>
                    Inr (messages @ concat (map (\<lambda>critic_step.
                           CriticStep_to_messages critic_step sm) (c # cs)))
                | _ \<Rightarrow> Inr messages)))"

definition patch_action_step :: "ActionStep_class \<Rightarrow> ActionStep_class" where
  "patch_action_step cls =
     \<lparr>init_method = init_with_critic_steps (init_method cls),
      to_messages_method = to_messages_with_critic_steps (to_messages_method cls)\<rparr>"

text \<open>The class as the module leaves it after import.\<close>

definition patched_action_step :: ActionStep_class where
  "patched_action_step = patch_action_step ActionStep_cls"

section \<open>AgentMemory\<close>

datatype step =
    TaskS TaskStep
  | ActionS ActionStep
  | PlanningS PlanningStep
  | SystemPromptS SystemPromptStep
  | CriticS CriticStep

fun step_dict :: "step \<Rightarrow> (string \<times> pyval) list" where
  "step_dict (TaskS s) = TaskStep_dict s"
| "step_dict (ActionS s) = ActionStep_dict s"
| "step_dict (PlanningS s) = PlanningStep_dict s"
| "step_dict (SystemPromptS s) = SystemPromptStep_dict s"
| "step_dict (CriticS s) = CriticStep_dict s"

record AgentMemory =
  system_prompt :: SystemPromptStep
  steps :: "step list"

definition AgentMemory_init :: "string \<Rightarrow> AgentMemory" where
  "AgentMemory_init prompt =
     \<lparr>system_prompt = \<lparr>SystemPromptStep.system_prompt = prompt\<rparr>, steps = []\<rparr>"

definition reset :: "AgentMemory \<Rightarrow> AgentMemory" where
  "reset self = self\<lparr>steps := []\<rparr>"

definition get_succinct_steps :: "AgentMemory \<Rightarrow> (string \<times> pyval) list list" where
  "get_succinct_steps self =
     map (\<lambda>step. filter (\<lambda>(key, val). key \<noteq> ''model_input_messages'') (step_dict step))
         (steps self)"

definition get_full_steps :: "AgentMemory \<Rightarrow> (string \<times> pyval) list list" where
  "get_full_steps self = map step_dict (steps self)"

section \<open>Default and example instances\<close>

text \<open>
  The field defaults of the \<open>ActionStep\<close> dataclass: every field is \<open>None\<close>.  The
  constructor installed at the moment decides about \<open>critic_steps\<close>.
\<close>

definition ActionStep_defaults :: ActionStep where
  "ActionStep_defaults =
     \<lparr>ActionStep.model_input_messages = PNone,
      tool_calls = None,
      ActionStep.start_time = PNone,
      ActionStep.end_time = PNone,
      step_number = PNone,
      error = None,
      ActionStep.duration = PNone,
      ActionStep.model_output_message = PNone,
      model_output = None,
      observations = None,
      observations_images = None,
      action_output = PNone,
      critic_steps = None\<rparr>"

text \<open>
  The values that \<open>ActionStep.dict\<close> hands on unchanged have a JSON form.
\<close>

definition passed_through_safe :: "ActionStep \<Rightarrow> bool" where
  "passed_through_safe s =
     (json_safe (ActionStep.model_input_messages s) \<and>
      json_safe (ActionStep.start_time s) \<and>
      json_safe (ActionStep.end_time s) \<and>
      json_safe (step_number s) \<and>
      json_safe (ActionStep.duration s) \<and>
      json_safe (ActionStep.model_output_message s) \<and>
      (case error s of None \<Rightarrow> True | Some e \<Rightarrow> json_safe (PDict (dict_form e))))"

text \<open>Concrete steps on which the theorems below are run.\<close>

definition review :: "bool \<Rightarrow> string \<Rightarrow> CriticStep" where
  "review verdict text =
     \<lparr>CriticStep.start_time = PFloat ''1.5'',
      CriticStep.end_time = PNone,
      CriticStep.duration = PNone,
      CriticStep.model_input_messages = PList [],
      CriticStep.model_output_message = PNone,
      feedback = text,
      accepted = verdict\<rparr>"

definition long_review :: CriticStep where
  "long_review =
     \<lparr>CriticStep.start_time = PFloat ''1.5'',
      CriticStep.end_time = PNone,
      CriticStep.duration = PNone,
      CriticStep.model_input_messages = PList [],
      CriticStep.model_output_message = PDict [(''role'', PStr ''assistant'')],
      feedback = replicate 201 CHR ''a'',
      accepted = True\<rparr>"

definition reviewed_step :: ActionStep where
  "reviewed_step = ActionStep_defaults
     \<lparr>critic_steps := Some [review True ''fine'', review False ''wrong'']\<rparr>"

definition calc_call :: ToolCall where
  "calc_call = \<lparr>name = ''calc'', arguments = PDict [(''x'', PInt 1)], id_field = ''tc_1''\<rparr>"

definition judged_step :: ActionStep where
  "judged_step = ActionStep_defaults
     \<lparr>tool_calls := Some [calc_call],
      model_output := Some ''thinking'',
      observations := Some ''42'',
      critic_steps := Some [review True ''fine'', review False ''wrong'']\<rparr>"

definition opaque_step :: ActionStep where
  "opaque_step = ActionStep_defaults
     \<lparr>tool_calls := Some [\<lparr>name = ''plot'', arguments = PDict [(''figure'', PObj ''<Figure>'')],
                           id_field = ''tc_2''\<rparr>],
      action_output := PObj ''<Figure>''\<rparr>"

definition ex_memory :: AgentMemory where
  "ex_memory =
     \<lparr>system_prompt = \<lparr>SystemPromptStep.system_prompt = ''You are an agent.''\<rparr>,
      steps = [ActionS (ActionStep_defaults
        \<lparr>ActionStep.model_input_messages := PList [PStr ''hello''],
         step_number := PInt 1\<rparr>)]\<rparr>"

section \<open>Properties\<close>

subsection \<open>Resetting the memory\<close>

text \<open>
  C7: in every state of an \<open>AgentMemory\<close>, \<open>reset\<close> empties \<open>steps\<close> and leaves the
  \<open>system_prompt\<close> field as it was, and \<open>get_full_steps\<close> on the result is the empty
  sequence.
\<close>

theorem reset_clears_steps_only:
  "steps (reset m) = [] \<and>
   AgentMemory.system_prompt (reset m) = AgentMemory.system_prompt m \<and>
   get_full_steps (reset m) = []"
  by (simp add: reset_def get_full_steps_def)

subsection \<open>The record of a critic step\<close>

text \<open>
  C10: for every \<open>CriticStep\<close>, whatever its feedback, verdict, timings and messages are,
  the inherited \<open>dict\<close> returns the empty mapping, since the class declares no dataclass
  field of its own; and the record of an \<open>ActionStep\<close> does not depend on its critic steps,
  so critic data reaches no record dump.
\<close>

theorem CriticStep_dict_empty:
  "CriticStep_dict c = [] \<and>
   step_dict (CriticS c) = [] \<and>
   ActionStep_dict (s\<lparr>critic_steps := cs\<rparr>) = ActionStep_dict s"
  by (simp add: CriticStep_dict_def CriticStep_declared_fields_def asdict_def ActionStep_dict_def)

subsection \<open>The messages of a critic step\<close>

text \<open>
  C8: for every \<open>CriticStep\<close> whose feedback is longer than 200 characters, summary mode
  gives exactly one message with the role \<open>assistant\<close>, whose text is \<open>[Critic ACCEPTED]\<close>
  or \<open>[Critic REJECTED]\<close> (by the verdict), a blank, the first 200 characters of the
  feedback and three dots.  Outside summary mode the step gives one message
  \<open>[Critic Review]\<close> with the whole feedback when the test \<open>if self.model_output_message\<close>
  succeeds, and no message otherwise.
\<close>

theorem CriticStep_to_messages_long_feedback:
  assumes "length (feedback c) > 200"
  shows "CriticStep_to_messages c True =
           [\<lparr>role = Literal ''assistant'',
             content = PStr (''[Critic '' @ (if accepted c then ''ACCEPTED'' else ''REJECTED'') @
                             ''] '' @ take 200 (feedback c) @ ''...'')\<rparr>] \<and>
         CriticStep_to_messages c False =
           (if py_truthy (CriticStep.model_output_message c)
            then [\<lparr>role = Literal ''assistant'',
                    content = PStr (''[Critic Review] '' @ feedback c)\<rparr>]
            else [])"
  using assms by (simp add: CriticStep_to_messages_def)

text \<open>
  The theorem at a review of 201 characters: the summary keeps 200 of them, the full
  rendering all.
\<close>

theorem CriticStep_to_messages_long_feedback_witness:
  "length (feedback long_review) > 200 \<and>
   CriticStep_to_messages long_review True =
     [\<lparr>role = Literal ''assistant'',
       content = PStr (''[Critic ACCEPTED] '' @ replicate 200 CHR ''a'' @ ''...'')\<rparr>] \<and>
   CriticStep_to_messages long_review False =
     [\<lparr>role = Literal ''assistant'',
       content = PStr (''[Critic Review] '' @ replicate 201 CHR ''a'')\<rparr>]"
proof -
  have long: "length (feedback long_review) > 200"
    by (simp add: long_review_def)
  show ?thesis
    using long CriticStep_to_messages_long_feedback [OF long]
    by (simp add: long_review_def)
qed

subsection \<open>The messages of an action step\<close>

text \<open>
  C2: an \<open>ActionStep\<close> with \<open>tool_calls = None\<close> and the observation \<open>42\<close> should render
  a tool response without the call-id line.  The code builds the call-id line without
  asking whether there is a tool call: \<open>to_messages\<close> raises \<open>TypeError\<close>, and
  \<open>IndexError\<close> when the list of tool calls is empty.
\<close>

theorem observations_without_tool_calls_raise:
  "to_messages_method patched_action_step
     (init_method patched_action_step (ActionStep_defaults\<lparr>observations := Some ''42''\<rparr>))
     \<lparr>summary_mode = None, show_model_input_messages = None\<rparr> = Inl TypeError \<and>
   to_messages_method patched_action_step
     (init_method patched_action_step
        (ActionStep_defaults\<lparr>tool_calls := Some [], observations := Some ''42''\<rparr>))
     \<lparr>summary_mode = None, show_model_input_messages = None\<rparr> = Inl IndexError"
  by (simp add: patched_action_step_def patch_action_step_def ActionStep_cls_def
      to_messages_with_critic_steps_def init_with_critic_steps_def ActionStep_init_def
      ActionStep_defaults_def ActionStep_to_messages_def observations_part_def
      first_tool_call_id_def default_arg_def)

text \<open>
  Where the branch for the observations does not raise, the error of a step is rendered
  as one tool response: the call-id line when there is a tool call, the header \<open>Error:\<close>,
  the string form of the error, and the retry guidance.
\<close>

lemma error_message_rendered:
  assumes "error self = Some e"
    and "observations self = None \<or> (\<exists>tc tcs. tool_calls self = Some (tc # tcs))"
  shows "\<exists>before after. ActionStep_to_messages self sm sh =
           Inr (before @
                [\<lparr>role = Member TOOL_RESPONSE,
                  content = PList [text_part
                    ((case tool_calls self of
                        Some (tc # tcs) \<Rightarrow> ''Call id: '' @ id_field tc @ [NL]
                      | _ \<Rightarrow> []) @
                     ''Error:'' @ [NL] @ str_form e @ retry_guidance)]\<rparr>] @
                after)"
proof -
  have "\<exists>obs_msgs. observations_part self = Inr obs_msgs"
  proof (cases "observations self")
    case None
    then show ?thesis by (simp add: observations_part_def)
  next
    case (Some obs)
    with assms(2) obtain tc tcs where "tool_calls self = Some (tc # tcs)" by auto
    with Some show ?thesis
      by (simp add: observations_part_def first_tool_call_id_def)
  qed
  then obtain obs_msgs where obs: "observations_part self = Inr obs_msgs" ..
  have err: "error_part self =
      [\<lparr>role = Member TOOL_RESPONSE,
        content = PList [text_part
          ((case tool_calls self of
              Some (tc # tcs) \<Rightarrow> ''Call id: '' @ id_field tc @ [NL]
            | _ \<Rightarrow> []) @
           ''Error:'' @ [NL] @ str_form e @ retry_guidance)]\<rparr>]"
    using assms(1) by (simp add: error_part_def Let_def)
  have "ActionStep_to_messages self sm sh =
      Inr ((input_messages_part self sh @ model_output_part self sm @ tool_calls_part self @
            obs_msgs) @ error_part self @ observations_images_part self)"
    using obs by (simp add: ActionStep_to_messages_def)
  then show ?thesis
    unfolding err by blast
qed

text \<open>
  C9: every \<open>ActionStep\<close> with an error should render it as one tool response and never
  raise.  A step that carries an error and an observation but no tool call does raise:
  \<open>to_messages\<close> stops with \<open>TypeError\<close> in the branch for the observations, before the
  error is rendered.
\<close>

theorem error_after_observations_without_tool_calls_raises:
  "to_messages_method patched_action_step
     (init_method patched_action_step
        (ActionStep_defaults\<lparr>error := Some \<lparr>str_form = ''boom'', dict_form = []\<rparr>,
                             observations := Some ''42''\<rparr>))
     \<lparr>summary_mode = None, show_model_input_messages = None\<rparr> = Inl TypeError"
  by (simp add: patched_action_step_def patch_action_step_def ActionStep_cls_def
      to_messages_with_critic_steps_def init_with_critic_steps_def ActionStep_init_def
      ActionStep_defaults_def ActionStep_to_messages_def observations_part_def
      first_tool_call_id_def default_arg_def)

text \<open>
  The method of the class as declared echoes the input messages first, as a \<open>SYSTEM\<close>
  message, when it is asked to.
\<close>

lemma base_to_messages_shows_input_messages:
  assumes "ActionStep.model_input_messages self \<noteq> PNone"
    and "observations self = None \<or> (\<exists>tc tcs. tool_calls self = Some (tc # tcs))"
  shows "\<exists>rest. to_messages_method ActionStep_cls self
           \<lparr>summary_mode = sm, show_model_input_messages = Some True\<rparr> =
         Inr (\<lparr>role = Member SYSTEM, content = ActionStep.model_input_messages self\<rparr> # rest)"
  using assms
  by (auto simp add: ActionStep_cls_def ActionStep_to_messages_def observations_part_def
      first_tool_call_id_def default_arg_def input_messages_part_def split: option.splits)

text \<open>
  C3: a call of \<open>to_messages\<close> with \<open>show_model_input_messages\<close> should succeed after the
  extension is installed and give the \<open>SYSTEM\<close> echo first.  The wrapper that the module
  installs at import accepts \<open>summary_mode\<close> only: on every step, and whatever the value
  passed, the call raises \<open>TypeError\<close>.
\<close>

theorem patched_to_messages_rejects_show_model_input_messages:
  "to_messages_method patched_action_step self
     \<lparr>summary_mode = sm, show_model_input_messages = Some b\<rparr> = Inl TypeError"
  by (simp add: patched_action_step_def patch_action_step_def to_messages_with_critic_steps_def)

text \<open>
  C4 (amended): after the extension is installed, a step with one tool call, an
  observation and two critic steps, the first accepted and the second rejected, renders in
  summary mode as: the tool-call dump, the observation, the messages for the error and the
  observed images where the step has them, then \<open>[Critic ACCEPTED]\<close> and
  \<open>[Critic REJECTED]\<close>.  The model output gives no message in summary mode.  Every
  critic message comes after every message of the step itself, in the order of the
  critic steps.
\<close>

theorem summary_order_with_critic_steps:
  assumes "tool_calls self = Some [tc]"
    and "observations self = Some obs"
    and "critic_steps self = Some [c1, c2]"
    and "accepted c1" and "\<not> accepted c2"
  shows "to_messages_method patched_action_step self
           \<lparr>summary_mode = Some True, show_model_input_messages = None\<rparr> =
         Inr ([\<lparr>role = Member ASSISTANT,
                content = PList [text_part (''Calling tools:'' @ [NL] @
                  py_str (PList [PDict (ToolCall_dict tc)]))]\<rparr>,
               \<lparr>role = Member TOOL_RESPONSE,
                content = PList [text_part (''Call id: '' @ id_field tc @ [NL] @
                  ''Observation:'' @ [NL] @ obs)]\<rparr>] @
              error_part self @ observations_images_part self @
              [\<lparr>role = Literal ''assistant'',
                content = PStr (''[Critic ACCEPTED] '' @
                  (if length (feedback c1) > 200 then take 200 (feedback c1) @ ''...''
                   else feedback c1))\<rparr>,
               \<lparr>role = Literal ''assistant'',
                content = PStr (''[Critic REJECTED] '' @
                  (if length (feedback c2) > 200 then take 200 (feedback c2) @ ''...''
                   else feedback c2))\<rparr>])"
  using assms
  by (simp add: patched_action_step_def patch_action_step_def to_messages_with_critic_steps_def
      ActionStep_cls_def default_arg_def ActionStep_to_messages_def observations_part_def
      first_tool_call_id_def input_messages_part_def model_output_part_def tool_calls_part_def
      CriticStep_to_messages_def split: option.splits)

text \<open>
  The theorem at a step with the model output \<open>thinking\<close>, the tool call \<open>tc_1\<close>, the
  observation \<open>42\<close> and no error: four messages.
\<close>

theorem summary_order_with_critic_steps_witness:
  "to_messages_method patched_action_step judged_step
     \<lparr>summary_mode = Some True, show_model_input_messages = None\<rparr> =
   Inr [\<lparr>role = Member ASSISTANT,
         content = PList [text_part (''Calling tools:'' @ [NL] @
           py_str (PList [PDict (ToolCall_dict calc_call)]))]\<rparr>,
        \<lparr>role = Member TOOL_RESPONSE,
         content = PList [text_part (''Call id: tc_1'' @ [NL] @ ''Observation:'' @ [NL] @ ''42'')]\<rparr>,
        \<lparr>role = Literal ''assistant'', content = PStr ''[Critic ACCEPTED] fine''\<rparr>,
        \<lparr>role = Literal ''assistant'', content = PStr ''[Critic REJECTED] wrong''\<rparr>]"
proof -
  have tcs: "tool_calls judged_step = Some [calc_call]"
    and obs: "observations judged_step = Some ''42''"
    and cs: "critic_steps judged_step = Some [review True ''fine'', review False ''wrong'']"
    by (simp_all add: judged_step_def)
  have acc: "accepted (review True ''fine'')" and rej: "\<not> accepted (review False ''wrong'')"
    by (simp_all add: review_def)
  have err: "error_part judged_step = []" and img: "observations_images_part judged_step = []"
    by (simp_all add: error_part_def observations_images_part_def judged_step_def
        ActionStep_defaults_def)
  have fb: "feedback (review True ''fine'') = ''fine''" "feedback (review False ''wrong'') = ''wrong''"
    by (simp_all add: review_def)
  have cid: "id_field calc_call = ''tc_1''"
    by (simp add: calc_call_def)
  show ?thesis
    using summary_order_with_critic_steps [OF tcs obs cs acc rej]
    by (simp add: err img fb cid)
qed

text \<open>
  The order as first stated, with the model output as the first of five messages, is not
  what the same step renders in summary mode.
\<close>

theorem summary_order_counterexample:
  "to_messages_method patched_action_step judged_step
     \<lparr>summary_mode = Some True, show_model_input_messages = None\<rparr> \<noteq>
   Inr [\<lparr>role = Member ASSISTANT, content = PList [text_part ''thinking'']\<rparr>,
        \<lparr>role = Member ASSISTANT,
         content = PList [text_part (''Calling tools:'' @ [NL] @
           py_str (PList [PDict (ToolCall_dict calc_call)]))]\<rparr>,
        \<lparr>role = Member TOOL_RESPONSE,
         content = PList [text_part (''Call id: tc_1'' @ [NL] @ ''Observation:'' @ [NL] @ ''42'')]\<rparr>,
        \<lparr>role = Literal ''assistant'', content = PStr ''[Critic ACCEPTED] fine''\<rparr>,
        \<lparr>role = Literal ''assistant'', content = PStr ''[Critic REJECTED] wrong''\<rparr>]"
proof -
  have "\<exists>ms. to_messages_method patched_action_step judged_step
     \<lparr>summary_mode = Some True, show_model_input_messages = None\<rparr> = Inr ms \<and> length ms = 4"
    by (simp add: patched_action_step_def patch_action_step_def to_messages_with_critic_steps_def
      ActionStep_cls_def default_arg_def ActionStep_to_messages_def observations_part_def
      first_tool_call_id_def input_messages_part_def model_output_part_def tool_calls_part_def
      error_part_def observations_images_part_def judged_step_def ActionStep_defaults_def
      CriticStep_to_messages_def review_def)
  then show ?thesis by auto
qed

subsection \<open>Installing the extension more than once\<close>

lemma to_messages_method_patch:
  "to_messages_method (patch_action_step cls) =
   to_messages_with_critic_steps (to_messages_method cls)"
  by (simp add: patch_action_step_def)

lemma concat_replicate_snoc:
  "concat (replicate n xs) @ xs = xs @ concat (replicate n xs)"
  by (induction n) simp_all

lemma wrapper_appends_critic_messages:
  assumes "original self \<lparr>summary_mode = Some sm, show_model_input_messages = None\<rparr> = Inr messages"
    and "critic_steps self = Some cs"
  shows "to_messages_with_critic_steps original self
           \<lparr>summary_mode = Some sm, show_model_input_messages = None\<rparr> =
         Inr (messages @ concat (map (\<lambda>c. CriticStep_to_messages c sm) cs))"
  using assms
  by (cases cs) (simp_all add: to_messages_with_critic_steps_def default_arg_def)

text \<open>
  C1 (amended): every call of \<open>patch_action_step\<close> wraps the method it finds, and every
  wrapper appends the messages of the critic steps to what the wrapped method returns.
  After \<open>n\<close> installs a step renders as its own messages followed by \<open>n\<close> copies of the
  critic messages.  In summary mode every critic step gives one message, so a step with
  two critic steps gets two critic messages from one install and four from two.
\<close>

theorem patch_action_step_layers:
  assumes "ActionStep_to_messages self sm False = Inr base"
    and "critic_steps self = Some cs"
  shows "to_messages_method ((patch_action_step ^^ n) ActionStep_cls) self
           \<lparr>summary_mode = Some sm, show_model_input_messages = None\<rparr> =
         Inr (base @ concat (replicate n (concat (map (\<lambda>c. CriticStep_to_messages c sm) cs)))) \<and>
         length (concat (map (\<lambda>c. CriticStep_to_messages c True) cs)) = length cs"
proof
  show "to_messages_method ((patch_action_step ^^ n) ActionStep_cls) self
           \<lparr>summary_mode = Some sm, show_model_input_messages = None\<rparr> =
         Inr (base @ concat (replicate n (concat (map (\<lambda>c. CriticStep_to_messages c sm) cs))))"
  proof (induction n)
    case 0
    show ?case using assms(1) by (simp add: ActionStep_cls_def default_arg_def)
  next
    case (Suc n)
    show ?case
      using wrapper_appends_critic_messages
        [where original = "to_messages_method ((patch_action_step ^^ n) ActionStep_cls)",
          OF Suc.IH assms(2)]
      by (simp add: to_messages_method_patch concat_replicate_snoc)
  qed
  show "length (concat (map (\<lambda>c. CriticStep_to_messages c True) cs)) = length cs"
    by (induction cs) (simp_all add: CriticStep_to_messages_def Let_def)
qed

text \<open>
  The theorem at one install and a step that has two critic steps and nothing else: two
  messages.
\<close>

theorem patch_action_step_layers_witness:
  "to_messages_method ((patch_action_step ^^ 1) ActionStep_cls) reviewed_step
     \<lparr>summary_mode = Some True, show_model_input_messages = None\<rparr> =
   Inr [\<lparr>role = Literal ''assistant'', content = PStr ''[Critic ACCEPTED] fine''\<rparr>,
        \<lparr>role = Literal ''assistant'', content = PStr ''[Critic REJECTED] wrong''\<rparr>]"
proof -
  have base: "ActionStep_to_messages reviewed_step True False = Inr []"
    by (simp add: reviewed_step_def ActionStep_defaults_def ActionStep_to_messages_def
        observations_part_def input_messages_part_def model_output_part_def
        tool_calls_part_def error_part_def observations_images_part_def)
  have cs: "critic_steps reviewed_step = Some [review True ''fine'', review False ''wrong'']"
    by (simp add: reviewed_step_def)
  show ?thesis
    using patch_action_step_layers [OF base cs, of 1]
    by (simp add: CriticStep_to_messages_def review_def)
qed

text \<open>
  Two installs on the class as declared: the same step renders four critic messages.
\<close>

theorem patch_action_step_twice_counterexample:
  "to_messages_method (patch_action_step (patch_action_step ActionStep_cls)) reviewed_step
     \<lparr>summary_mode = Some True, show_model_input_messages = None\<rparr> =
   Inr [\<lparr>role = Literal ''assistant'', content = PStr ''[Critic ACCEPTED] fine''\<rparr>,
        \<lparr>role = Literal ''assistant'', content = PStr ''[Critic REJECTED] wrong''\<rparr>,
        \<lparr>role = Literal ''assistant'', content = PStr ''[Critic ACCEPTED] fine''\<rparr>,
        \<lparr>role = Literal ''assistant'', content = PStr ''[Critic REJECTED] wrong''\<rparr>]"
  by (simp add: patch_action_step_def to_messages_with_critic_steps_def ActionStep_cls_def
      default_arg_def reviewed_step_def ActionStep_defaults_def ActionStep_to_messages_def
      observations_part_def input_messages_part_def model_output_part_def
      tool_calls_part_def error_part_def observations_images_part_def
      CriticStep_to_messages_def review_def)

subsection \<open>Records and JSON\<close>

lemma json_safe_make_json_serializable: "json_safe (make_json_serializable v)"
  by (induction v rule: make_json_serializable.induct) (auto simp: list_all_iff)

lemma map_fst_asdict: "map fst (asdict kvs) = map fst kvs"
  by (induction kvs) (auto simp: asdict_def)

lemma json_safe_ToolCall_dict: "list_all (\<lambda>(k, v). json_safe v) (ToolCall_dict tc)"
  by (simp add: ToolCall_dict_def json_safe_make_json_serializable)

lemma json_safe_ToolCall_dict_entry: "(k, v) \<in> set (ToolCall_dict tc) \<Longrightarrow> json_safe v"
  using json_safe_ToolCall_dict [of tc] by (auto simp: list_all_iff)

lemma json_safe_ActionStep_dict:
  "json_safe (PDict (ActionStep_dict s)) = passed_through_safe s"
  by (cases "tool_calls s"; cases "the (tool_calls s)")
     (auto simp add: ActionStep_dict_def passed_through_safe_def opt_str_def
       json_safe_make_json_serializable list_all_iff
       split: option.splits dest: json_safe_ToolCall_dict_entry)

text \<open>
  C5 (amended): \<open>dict\<close> returns a record for every step of every kind.  The record of
  an \<open>ActionStep\<close> has the eleven fixed keys, and its entries \<open>tool_calls\<close> and
  \<open>action_output\<close> have a JSON form whatever the tool arguments and the action output
  are.  The other values are handed on as they are: the record survives the JSON round
  trip, unchanged and with every key, exactly when the values handed on
  (\<open>model_input_messages\<close>, the timings, \<open>step\<close>, \<open>model_output_message\<close>, the record of
  the error) have a JSON form, and the encoder raises \<open>TypeError\<close> otherwise.  The
  records of a \<open>TaskStep\<close> and of a \<open>PlanningStep\<close> survive it exactly when what
  \<open>asdict\<close> makes of the task images and of the messages has a JSON form.  The records
  of a \<open>CriticStep\<close> and of a \<open>SystemPromptStep\<close> always survive it.
\<close>

theorem dict_json_roundtrip:
  "map fst (ActionStep_dict s) =
     [''model_input_messages'', ''tool_calls'', ''start_time'', ''end_time'', ''step'',
      ''error'', ''duration'', ''model_output_message'', ''model_output'', ''observations'',
      ''action_output''] \<and>
   (\<exists>tc ao. map_of (ActionStep_dict s) ''tool_calls'' = Some tc \<and> json_safe tc \<and>
            map_of (ActionStep_dict s) ''action_output'' = Some ao \<and> json_safe ao) \<and>
   json_roundtrip (PDict (step_dict (ActionS s))) =
     (if passed_through_safe s then Inr (PDict (ActionStep_dict s)) else Inl TypeError) \<and>
   json_roundtrip (PDict (step_dict (CriticS c))) = Inr (PDict []) \<and>
   json_roundtrip (PDict (step_dict (SystemPromptS p))) =
     Inr (PDict [(''system_prompt'', PStr (SystemPromptStep.system_prompt p))]) \<and>
   json_roundtrip (PDict (step_dict (TaskS t))) =
     (if (case task_images t of None \<Rightarrow> True
          | Some imgs \<Rightarrow> list_all (\<lambda>img. json_safe (asdict_inner img)) imgs)
      then Inr (PDict (TaskStep_dict t)) else Inl TypeError) \<and>
   json_roundtrip (PDict (step_dict (PlanningS pl))) =
     (if json_safe (asdict_inner (PlanningStep.model_input_messages pl)) \<and>
         json_safe (asdict_inner (model_output_message_facts pl)) \<and>
         json_safe (asdict_inner (model_output_message_plan pl))
      then Inr (PDict (PlanningStep_dict pl)) else Inl TypeError)"
proof (intro conjI)
  show "map fst (ActionStep_dict s) =
     [''model_input_messages'', ''tool_calls'', ''start_time'', ''end_time'', ''step'',
      ''error'', ''duration'', ''model_output_message'', ''model_output'', ''observations'',
      ''action_output'']"
    by (simp add: ActionStep_dict_def)
  show "\<exists>tc ao. map_of (ActionStep_dict s) ''tool_calls'' = Some tc \<and> json_safe tc \<and>
            map_of (ActionStep_dict s) ''action_output'' = Some ao \<and> json_safe ao"
    by (cases "tool_calls s"; cases "the (tool_calls s)")
       (auto simp add: ActionStep_dict_def json_safe_make_json_serializable list_all_iff
         dest: json_safe_ToolCall_dict_entry)
  show "json_roundtrip (PDict (step_dict (ActionS s))) =
     (if passed_through_safe s then Inr (PDict (ActionStep_dict s)) else Inl TypeError)"
    using json_safe_ActionStep_dict [of s] by (simp add: json_roundtrip_def)
  show "json_roundtrip (PDict (step_dict (CriticS c))) = Inr (PDict [])"
    by (simp add: json_roundtrip_def CriticStep_dict_def CriticStep_declared_fields_def asdict_def)
  show "json_roundtrip (PDict (step_dict (SystemPromptS p))) =
     Inr (PDict [(''system_prompt'', PStr (SystemPromptStep.system_prompt p))])"
    by (simp add: json_roundtrip_def SystemPromptStep_dict_def asdict_def)
  show "json_roundtrip (PDict (step_dict (TaskS t))) =
     (if (case task_images t of None \<Rightarrow> True
          | Some imgs \<Rightarrow> list_all (\<lambda>img. json_safe (asdict_inner img)) imgs)
      then Inr (PDict (TaskStep_dict t)) else Inl TypeError)"
    by (simp add: json_roundtrip_def TaskStep_dict_def asdict_def list_all_iff
        split: option.splits)
  show "json_roundtrip (PDict (step_dict (PlanningS pl))) =
     (if json_safe (asdict_inner (PlanningStep.model_input_messages pl)) \<and>
         json_safe (asdict_inner (model_output_message_facts pl)) \<and>
         json_safe (asdict_inner (model_output_message_plan pl))
      then Inr (PDict (PlanningStep_dict pl)) else Inl TypeError)"
    by (simp add: json_roundtrip_def PlanningStep_dict_def asdict_def)
qed

text \<open>
  The theorem at a step whose tool argument and action output are objects without a JSON
  form: the record survives the round trip, with the placeholder in their place.
\<close>

theorem dict_json_roundtrip_witness:
  "json_roundtrip (PDict (step_dict (ActionS opaque_step))) =
     Inr (PDict (ActionStep_dict opaque_step)) \<and>
   map_of (ActionStep_dict opaque_step) ''action_output'' = Some (PStr ''<not serializable>'')"
proof -
  have safe: "passed_through_safe opaque_step"
    by (simp add: passed_through_safe_def opaque_step_def ActionStep_defaults_def)
  show ?thesis
    using dict_json_roundtrip [of opaque_step] safe
    by (simp add: ActionStep_dict_def opaque_step_def ActionStep_defaults_def)
qed

text \<open>
  A step whose \<open>model_output_message\<close> is a chat message, an instance of a dataclass:
  \<open>dict\<close> hands the object on, and the encoder raises.
\<close>

theorem dict_json_roundtrip_counterexample:
  "json_roundtrip (PDict (step_dict (ActionS
     (ActionStep_defaults\<lparr>ActionStep.model_output_message :=
        PData ''ChatMessage'' [(''role'', PStr ''assistant''), (''content'', PStr ''ok'')]\<rparr>)))) =
   Inl TypeError"
  by (simp add: json_roundtrip_def ActionStep_dict_def ActionStep_defaults_def opt_str_def)

subsection \<open>Succinct and full dumps\<close>

lemma map_of_filter_key:
  "map_of (filter (\<lambda>(key, val). key \<noteq> a) kvs) k = (if k = a then None else map_of kvs k)"
  by (induction kvs) auto

lemma map_fst_filter_key:
  "map fst (filter (\<lambda>(key, val). key \<noteq> a) kvs) = filter (\<lambda>key. key \<noteq> a) (map fst kvs)"
  by (induction kvs) auto

text \<open>
  C6: for every \<open>AgentMemory\<close>, whatever steps were appended, \<open>get_succinct_steps\<close>
  returns, step by step and in order, the record of the step without the key
  \<open>model_input_messages\<close> and with every other key and its value, in the order of the
  record; \<open>get_full_steps\<close> returns the records as they are, and the record of an
  \<open>ActionStep\<close> or a \<open>PlanningStep\<close> holds \<open>model_input_messages\<close> with the value of
  the step (as \<open>asdict\<close> converts it, for a planning step).
\<close>

theorem get_succinct_steps_redacts:
  "length (get_succinct_steps m) = length (steps m) \<and>
   length (get_full_steps m) = length (steps m) \<and>
   (\<forall>i < length (steps m).
      get_full_steps m ! i = step_dict (steps m ! i) \<and>
      map_of (get_succinct_steps m ! i) ''model_input_messages'' = None \<and>
      (\<forall>k. k \<noteq> ''model_input_messages'' \<longrightarrow>
           map_of (get_succinct_steps m ! i) k = map_of (step_dict (steps m ! i)) k) \<and>
      map fst (get_succinct_steps m ! i) =
        filter (\<lambda>key. key \<noteq> ''model_input_messages'') (map fst (step_dict (steps m ! i)))) \<and>
   (\<forall>i s. i < length (steps m) \<longrightarrow> steps m ! i = ActionS s \<longrightarrow>
      map_of (get_full_steps m ! i) ''model_input_messages'' =
        Some (ActionStep.model_input_messages s)) \<and>
   (\<forall>i p. i < length (steps m) \<longrightarrow> steps m ! i = PlanningS p \<longrightarrow>
      map_of (get_full_steps m ! i) ''model_input_messages'' =
        Some (asdict_inner (PlanningStep.model_input_messages p)))"
  by (simp add: get_succinct_steps_def get_full_steps_def map_of_filter_key
      map_fst_filter_key ActionStep_dict_def PlanningStep_dict_def asdict_def)

text \<open>
  The theorem at a memory of one action step with input messages: the succinct dump has
  no such key and keeps \<open>step\<close>, the full dump has the messages.
\<close>

theorem get_succinct_steps_redacts_witness:
  "map_of (get_succinct_steps ex_memory ! 0) ''model_input_messages'' = None \<and>
   map_of (get_succinct_steps ex_memory ! 0) ''step'' = Some (PInt 1) \<and>
   map_of (get_full_steps ex_memory ! 0) ''model_input_messages'' = Some (PList [PStr ''hello''])"
  using get_succinct_steps_redacts [of ex_memory]
  by (simp add: ex_memory_def ActionStep_defaults_def ActionStep_dict_def)

end
